theory Spec2Isabelle
  imports Main "HOL-Library.Sublist" "HOL-Library.Word"
begin

section \<open>User authentication service: the user table (user.py, db.py)\<close>

text \<open>
  Python values that reach the store as keyword-argument values: \<open>None\<close>, an \<open>int\<close> or a
  \<open>str\<close>. A \<open>str\<close> is represented by its UTF-8 bytes, a \<open>bytes\<close> object by its bytes, both
  as \<open>string\<close>.
\<close>

datatype pyval = PNone | PInt int | PStr string

text \<open>
  One row of the table \<open>users\<close>: the five columns of class \<open>User\<close>. The column \<open>id\<close> is the
  INTEGER PRIMARY KEY, the rowid of SQLite: a signed integer of 64 bits.
\<close>

record user =
  id' :: "64 word"
  email :: string
  hashed_password :: string
  session_id :: "string option"
  reset_token :: "string option"

text \<open>
  The table, as the list of its rows in rowid order: the order in which SQLite scans it, so
  that \<open>.first()\<close> is the first matching row of the list. \<open>id\<close> is the INTEGER PRIMARY KEY
  and therefore the rowid.
\<close>

type_synonym db = "user list"

text \<open>\<open>user.id\<close> as Python reads it: the signed value of the rowid.\<close>

definition py_id :: "user \<Rightarrow> int" where
  "py_id u = sint (id' u)"

text \<open>The Python integers that sqlite3 can bind to a parameter: those of 64 bits.\<close>

definition int64 :: "int \<Rightarrow> bool" where
  "int64 n = (- (2 ^ 63) \<le> n \<and> n < 2 ^ 63)"

datatype column = Col_id | Col_email | Col_hashed_password | Col_session_id | Col_reset_token

text \<open>
  What \<open>getattr(User, key)\<close> gives: one of the five columns, or some other attribute of the
  class that is not a column.
\<close>

datatype attr = Column column | Plain

text \<open>
  The exceptions of the service: those it raises itself, \<open>IntegrityError\<close> and
  \<open>OverflowError\<close> that come up from SQLite, and \<open>Other\<close> for any other exception that a
  library raises, with its text. \<open>Unmodelled\<close> marks a call that leaves the fragment of
  SQLAlchemy and SQLite described here (see \<open>in_fragment\<close>): what it does is decided by
  those libraries. The loop over the keys comes first, so such a call has passed it; nothing
  else is said of it below.
\<close>

datatype error =
    NoResultFound
  | InvalidRequestError string
  | ValueError string
  | IntegrityError
  | OverflowError
  | Other string
  | Unmodelled

text \<open>
  The libraries the service calls, as parameters:
  \<^item> \<open>base_attr\<close>: the attribute names that class \<open>User\<close> inherits from the declarative base
    and from \<open>object\<close> (\<open>metadata\<close>, \<open>registry\<close>, \<open>__init__\<close>, \<open>__class__\<close>, ...);
  \<^item> \<open>hashpw password salt\<close> and \<open>checkpw password hashed\<close>: \<open>bcrypt.hashpw\<close> and
    \<open>bcrypt.checkpw\<close> on bytes. Each returns its result or raises an exception (bcrypt 5
    raises \<open>ValueError\<close> for a password of more than 72 bytes, and \<open>checkpw\<close> for a stored
    value that is no bcrypt hash).
  The salt of \<open>bcrypt.gensalt()\<close> and the string of \<open>uuid4()\<close> are drawn from the system's
  entropy; the operations that draw one take the drawn value as an argument.
\<close>

record lib =
  base_attr :: "string \<Rightarrow> bool"
  hashpw :: "string \<Rightarrow> string \<Rightarrow> error + string"
  checkpw :: "string \<Rightarrow> string \<Rightarrow> error + bool"

text \<open>
  \<open>hasattr(User, key)\<close> and \<open>getattr(User, key)\<close>: the class body of \<open>User\<close> binds
  \<open>__tablename__\<close> (the string \<open>"users"\<close>) and the five columns; every other attribute is
  inherited.
\<close>

definition getattr_User :: "lib \<Rightarrow> string \<Rightarrow> attr option" where
  "getattr_User L key =
     (if key = ''id'' then Some (Column Col_id)
      else if key = ''email'' then Some (Column Col_email)
      else if key = ''hashed_password'' then Some (Column Col_hashed_password)
      else if key = ''session_id'' then Some (Column Col_session_id)
      else if key = ''reset_token'' then Some (Column Col_reset_token)
      else if key = ''__tablename__'' then Some Plain
      else if base_attr L key then Some Plain
      else None)"


text \<open>
  The loop shared by \<open>find_user_by\<close> and \<open>update_user\<close>: it walks the keyword arguments in
  order, collects the attribute and the value of every key that \<open>hasattr\<close> accepts, and raises
  at the first key it does not accept (\<open>exn\<close> builds the exception from the key).
\<close>

fun collect :: "lib \<Rightarrow> (string \<Rightarrow> error) \<Rightarrow> (string \<times> pyval) list \<Rightarrow> error + (attr \<times> pyval) list" where
  "collect L exn [] = Inr []"
| "collect L exn ((key, val) # kvs) =
     (case getattr_User L key of
        None \<Rightarrow> Inl (exn key)
      | Some a \<Rightarrow>
          (case collect L exn kvs of
             Inl e \<Rightarrow> Inl e
           | Inr avs \<Rightarrow> Inr ((a, val) # avs)))"

text \<open>The value a row holds in a column, as the Python value SQLAlchemy returns for it.\<close>

fun row_value :: "column \<Rightarrow> user \<Rightarrow> pyval" where
  "row_value Col_id u = PInt (py_id u)"
| "row_value Col_email u = PStr (email u)"
| "row_value Col_hashed_password u = PStr (hashed_password u)"
| "row_value Col_session_id u = (case session_id u of None \<Rightarrow> PNone | Some s \<Rightarrow> PStr s)"
| "row_value Col_reset_token u = (case reset_token u of None \<Rightarrow> PNone | Some s \<Rightarrow> PStr s)"

text \<open>
  The declared type of each column (\<open>Integer\<close> or \<open>String\<close>) and its nullability. A value
  \<open>fits\<close> a column when it is \<open>None\<close> or has the column's Python type.
\<close>

fun fits :: "column \<Rightarrow> pyval \<Rightarrow> bool" where
  "fits c PNone = True"
| "fits Col_id (PInt n) = True"
| "fits Col_id (PStr s) = False"
| "fits c (PInt n) = False"
| "fits c (PStr s) = True"

fun nullable :: "column \<Rightarrow> bool" where
  "nullable Col_session_id = True"
| "nullable Col_reset_token = True"
| "nullable c = False"

text \<open>
  The values of a statement are bound as parameters, and sqlite3 raises \<open>OverflowError\<close> for
  an \<open>int\<close> outside 64 bits.
\<close>

fun bindable :: "pyval \<Rightarrow> bool" where
  "bindable (PInt n) = int64 n"
| "bindable v = True"

text \<open>
  The modelled fragment: at least one attribute, every attribute a column, every value
  fitting its column. Outside it SQLAlchemy and SQLite decide (a non-column attribute is
  coerced or rejected by \<open>tuple_\<close>, a value of another type is converted by SQLite's column
  affinity, an empty tuple is no SQL).
\<close>

fun in_fragment :: "(attr \<times> pyval) list \<Rightarrow> bool" where
  "in_fragment avs =
     (avs \<noteq> [] \<and> list_all (\<lambda>(a, v). case a of Column c \<Rightarrow> fits c v | Plain \<Rightarrow> False) avs)"

fun columns_of :: "(attr \<times> pyval) list \<Rightarrow> (column \<times> pyval) list" where
  "columns_of [] = []"
| "columns_of ((Column c, v) # avs) = (c, v) # columns_of avs"
| "columns_of ((Plain, v) # avs) = columns_of avs"

text \<open>
  SQL equality of a stored value with a bound parameter: a comparison with NULL is never
  true, so \<open>None\<close> as a filter value matches no row, not even one whose column is NULL.
\<close>

definition sql_eq :: "pyval \<Rightarrow> pyval \<Rightarrow> bool" where
  "sql_eq stored bound = (stored \<noteq> PNone \<and> bound \<noteq> PNone \<and> stored = bound)"

text \<open>\<open>tuple_(*columns).in_([tuple(values)])\<close>: every column equals its value.\<close>

definition row_matches :: "(column \<times> pyval) list \<Rightarrow> user \<Rightarrow> bool" where
  "row_matches cvs u = list_all (\<lambda>(c, v). sql_eq (row_value c u) v) cvs"

text \<open>\<open>DB.find_user_by(**filters)\<close>. It reads the table and never changes it.\<close>

definition find_user_by :: "lib \<Rightarrow> db \<Rightarrow> (string \<times> pyval) list \<Rightarrow> error + user" where
  "find_user_by L db filters =
     (case collect L (\<lambda>key. InvalidRequestError (''Invalid attribute: '' @ key)) filters of
        Inl e \<Rightarrow> Inl e
      | Inr avs \<Rightarrow>
          if \<not> in_fragment avs then Inl Unmodelled
          else if list_ex (\<lambda>(a, v). \<not> bindable v) avs then Inl OverflowError
          else (case find (row_matches (columns_of avs)) db of
                  None \<Rightarrow> Inl NoResultFound
                | Some result \<Rightarrow> Inr result))"

text \<open>
  The rowid SQLite gives a new row: 1 in an empty table, otherwise one more than the largest
  rowid in use. When the largest is \<open>2^63 - 1\<close> SQLite draws an unused rowid at random; that
  case is not modelled (the sum wraps around here), and the statements about new rowids
  exclude it (\<open>rowids_left\<close>).
\<close>

definition next_id :: "db \<Rightarrow> 64 word" where
  "next_id db = (if db = [] then 1 else word_of_int (Max (set (map py_id db)) + 1))"

text \<open>
  \<open>DB.add_user(email, hashed_password)\<close>, with \<open>None\<close> for an argument that is Python's
  \<open>None\<close>. There is no lookup and the table has no UNIQUE constraint on \<open>email\<close>: the commit
  fails only on a NULL in a NOT NULL column, and then the \<open>except\<close> branch rolls back and
  returns \<open>None\<close>. The new row goes last: its rowid is the largest.
\<close>

definition add_user :: "db \<Rightarrow> string option \<Rightarrow> string option \<Rightarrow> db \<times> user option" where
  "add_user db email_arg hashed_password_arg =
     (case (email_arg, hashed_password_arg) of
        (Some e, Some h) \<Rightarrow>
          (let new_user = \<lparr>id' = next_id db, email = e, hashed_password = h,
                           session_id = None, reset_token = None\<rparr>
           in (db @ [new_user], Some new_user))
      | _ \<Rightarrow> (db, None))"

text \<open>One assignment of the UPDATE statement, for a value that fits and respects NOT NULL.\<close>

fun assign :: "column \<times> pyval \<Rightarrow> user \<Rightarrow> user" where
  "assign (Col_id, PInt n) u = u\<lparr>id' := word_of_int n\<rparr>"
| "assign (Col_email, PStr s) u = u\<lparr>email := s\<rparr>"
| "assign (Col_hashed_password, PStr s) u = u\<lparr>hashed_password := s\<rparr>"
| "assign (Col_session_id, PStr s) u = u\<lparr>session_id := Some s\<rparr>"
| "assign (Col_session_id, PNone) u = u\<lparr>session_id := None\<rparr>"
| "assign (Col_reset_token, PStr s) u = u\<lparr>reset_token := Some s\<rparr>"
| "assign (Col_reset_token, PNone) u = u\<lparr>reset_token := None\<rparr>"
| "assign (c, v) u = u"

text \<open>
  \<open>query(User).filter(User.id == user_id).update(update_data)\<close> and the commit. The
  statement is atomic: an \<open>int\<close> that cannot be bound raises \<open>OverflowError\<close>, a NULL for a
  NOT NULL column or a primary key already in use raises \<open>IntegrityError\<close>, and either
  changes nothing. When the primary key changes, the row moves to its place in rowid
  order.
\<close>

definition sql_update :: "db \<Rightarrow> int \<Rightarrow> (attr \<times> pyval) list \<Rightarrow> db \<times> (error + unit)" where
  "sql_update db user_id update_data =
     (if \<not> in_fragment update_data then (db, Inl Unmodelled)
      else if \<not> int64 user_id \<or> list_ex (\<lambda>(a, v). \<not> bindable v) update_data
        then (db, Inl OverflowError)
      else
        let cvs = columns_of update_data in
        if list_ex (\<lambda>(c, v). v = PNone \<and> \<not> nullable c) cvs then (db, Inl IntegrityError)
        else
          let rows = map (\<lambda>u. if py_id u = user_id then fold assign cvs u else u) db in
          if Col_id \<notin> set (map fst cvs) then (rows, Inr ())
          else if distinct (map id' rows) then (sort_key py_id rows, Inr ())
          else (db, Inl IntegrityError))"

text \<open>
  \<open>DB.update_user(user_id, **kwargs)\<close>. \<open>find_user_by\<close> never returns \<open>None\<close>: when no row has
  the id it raises \<open>NoResultFound\<close>, which \<open>update_user\<close> does not catch, so the test
  \<open>if user is None: return\<close> that follows the lookup is never true.
\<close>

definition update_user :: "lib \<Rightarrow> db \<Rightarrow> int \<Rightarrow> (string \<times> pyval) list \<Rightarrow> db \<times> (error + unit)" where
  "update_user L db user_id kwargs =
     (case find_user_by L db [(''id'', PInt user_id)] of
        Inl e \<Rightarrow> (db, Inl e)
      | Inr user \<Rightarrow>
          (case collect L (\<lambda>key. ValueError (''Invalid attribute: '' @ key)) kwargs of
             Inl e \<Rightarrow> (db, Inl e)
           | Inr update_data \<Rightarrow> sql_update db user_id update_data))"


section \<open>User authentication service: the Auth class (auth.py)\<close>

text \<open>
  \<open>password.encode("utf-8")\<close>: a \<open>str\<close> is represented by its UTF-8 bytes already (a \<open>str\<close>
  with a lone surrogate, which has no encoding, is not represented).
\<close>

definition encode_utf8 :: "string \<Rightarrow> string" where
  "encode_utf8 s = s"

text \<open>
  \<open>_hash_password(password)\<close>; \<open>salt\<close> is the value \<open>bcrypt.gensalt()\<close> returned for this
  call. What \<open>bcrypt.hashpw\<close> raises leaves \<open>_hash_password\<close>.
\<close>

definition hash_password :: "lib \<Rightarrow> string \<Rightarrow> string \<Rightarrow> error + string" where
  "hash_password L password salt = hashpw L (encode_utf8 password) salt"

text \<open>
  Every operation of \<open>Auth\<close> takes the table and returns the table it leaves, where it can
  write, together with its result: \<open>Inr\<close> the value returned, \<open>Inl\<close> the exception that
  leaves the method.

  \<open>Auth.register_user(email, password)\<close>: the \<open>ValueError\<close> is raised inside the \<open>try\<close>, whose
  only handler is for \<open>NoResultFound\<close>; what \<open>_hash_password\<close> raises inside that handler
  leaves \<open>register_user\<close> before \<open>add_user\<close> is called.
\<close>

definition register_user ::
  "lib \<Rightarrow> db \<Rightarrow> string \<Rightarrow> string \<Rightarrow> string \<Rightarrow> db \<times> (error + user option)" where
  "register_user L db email_arg password salt =
     (case find_user_by L db [(''email'', PStr email_arg)] of
        Inr found \<Rightarrow> (db, Inl (ValueError (''User '' @ email_arg @ '' already exists'')))
      | Inl NoResultFound \<Rightarrow>
          (case hash_password L password salt of
             Inl e \<Rightarrow> (db, Inl e)
           | Inr hashed \<Rightarrow>
               (let (db', new_user) = add_user db (Some email_arg) (Some hashed)
                in (db', Inr new_user)))
      | Inl e \<Rightarrow> (db, Inl e))"

text \<open>
  \<open>Auth.valid_login(email, password)\<close>: the lookup and \<open>bcrypt.checkpw\<close> stand in one \<open>try\<close>
  whose handler, \<open>except NoResultFound: return False\<close>, is \<open>except_NoResultFound\<close>. Whatever
  else \<open>bcrypt.checkpw\<close> raises leaves \<open>valid_login\<close>.
\<close>

definition except_NoResultFound :: "error + bool \<Rightarrow> error + bool" where
  "except_NoResultFound body =
     (case body of
        Inl NoResultFound \<Rightarrow> Inr False
      | _ \<Rightarrow> body)"


text \<open>
  \<open>Auth.create_session(email)\<close>; \<open>uuid\<close> is the string \<open>_generate_uuid()\<close> returned for this
  call.
\<close>

definition create_session ::
  "lib \<Rightarrow> db \<Rightarrow> string \<Rightarrow> string \<Rightarrow> db \<times> (error + string option)" where
  "create_session L db email_arg uuid =
     (case find_user_by L db [(''email'', PStr email_arg)] of
        Inl NoResultFound \<Rightarrow> (db, Inr None)
      | Inl e \<Rightarrow> (db, Inl e)
      | Inr found \<Rightarrow>
          (case update_user L db (py_id found) [(''session_id'', PStr uuid)] of
             (db', Inl e) \<Rightarrow> (db', Inl e)
           | (db', Inr _) \<Rightarrow> (db', Inr (Some uuid))))"

text \<open>
  \<open>Auth.get_user_from_session_id(session_id)\<close>, with \<open>None\<close> for Python's \<open>None\<close>:
  \<open>not session_id\<close> holds for \<open>None\<close> and for the empty string.
\<close>

definition get_user_from_session_id :: "lib \<Rightarrow> db \<Rightarrow> string option \<Rightarrow> error + user option" where
  "get_user_from_session_id L db session_id_arg =
     (case session_id_arg of
        None \<Rightarrow> Inr None
      | Some s \<Rightarrow>
          if s = [] then Inr None
          else (case find_user_by L db [(''session_id'', PStr s)] of
                  Inr found \<Rightarrow> Inr (Some found)
                | Inl NoResultFound \<Rightarrow> Inr None
                | Inl e \<Rightarrow> Inl e))"

text \<open>
  \<open>Auth.destroy_session(user_id)\<close>, with \<open>None\<close> for Python's \<open>None\<close>: \<open>if user_id\<close> fails for
  \<open>None\<close> and for 0.
\<close>

definition destroy_session :: "lib \<Rightarrow> db \<Rightarrow> int option \<Rightarrow> db \<times> (error + unit)" where
  "destroy_session L db user_id =
     (case user_id of
        None \<Rightarrow> (db, Inr ())
      | Some n \<Rightarrow>
          if n = 0 then (db, Inr ())
          else update_user L db n [(''session_id'', PNone)])"

text \<open>
  \<open>Auth.get_reset_password_token(email)\<close>; \<open>uuid\<close> is the string \<open>_generate_uuid()\<close> returned
  for this call.
\<close>

definition get_reset_password_token ::
  "lib \<Rightarrow> db \<Rightarrow> string \<Rightarrow> string \<Rightarrow> db \<times> (error + string)" where
  "get_reset_password_token L db email_arg uuid =
     (case find_user_by L db [(''email'', PStr email_arg)] of
        Inl NoResultFound \<Rightarrow> (db, Inl (ValueError ''User not found''))
      | Inl e \<Rightarrow> (db, Inl e)
      | Inr found \<Rightarrow>
          (case update_user L db (py_id found) [(''reset_token'', PStr uuid)] of
             (db', Inl e) \<Rightarrow> (db', Inl e)
           | (db', Inr _) \<Rightarrow> (db', Inr uuid)))"

text \<open>
  \<open>Auth.update_password(reset_token, password)\<close>; \<open>salt\<close> is the value \<open>bcrypt.gensalt()\<close>
  returned for this call. The lookup comes first, then the hash, then the one update.
\<close>

definition update_password ::
  "lib \<Rightarrow> db \<Rightarrow> string \<Rightarrow> string \<Rightarrow> string \<Rightarrow> db \<times> (error + unit)" where
  "update_password L db reset_token_arg password salt =
     (case find_user_by L db [(''reset_token'', PStr reset_token_arg)] of
        Inl NoResultFound \<Rightarrow> (db, Inl (ValueError ''Invalid reset token''))
      | Inl e \<Rightarrow> (db, Inl e)
      | Inr found \<Rightarrow>
          (case hash_password L password salt of
             Inl e \<Rightarrow> (db, Inl e)
           | Inr hashed \<Rightarrow>
               update_user L db (py_id found)
                 [(''hashed_password'', PStr hashed), (''reset_token'', PNone)]))"

section \<open>States of the table\<close>

text \<open>
  The tables SQLite can hold: the rows are in rowid order and the primary keys are distinct.
  The rowids SQLite assigns start at 1, and no operation of \<open>Auth\<close> changes one, so they are
  positive in every table the service builds from the empty one (\<open>wf_db_register_user\<close> and
  the lemmas that follow it).
\<close>

definition wf_db :: "db \<Rightarrow> bool" where
  "wf_db db = (sorted_wrt (<) (map py_id db) \<and> list_all (\<lambda>u. 0 < py_id u) db)"

text \<open>The largest rowid, \<open>2^63 - 1\<close>, is not in use: the next row gets the next rowid.\<close>

definition rowids_left :: "db \<Rightarrow> bool" where
  "rowids_left db = list_all (\<lambda>u. py_id u < 2 ^ 63 - 1) db"



section \<open>Basic authentication (api/v1/auth/auth.py, api/v1/auth/basic_auth.py)\<close>

text \<open>\<open>str.rstrip(c)\<close> for a single character: every trailing \<open>c\<close> is removed.\<close>

definition rstrip :: "char \<Rightarrow> string \<Rightarrow> string" where
  "rstrip c s = rev (dropWhile (\<lambda>x. x = c) (rev s))"

text \<open>
  \<open>Auth.require_auth(path, excluded_paths)\<close>, with \<open>None\<close> for Python's \<open>None\<close>. Only
  \<open>path\<close> is rewritten; \<open>str.startswith\<close> is the prefix order.
\<close>

definition require_auth :: "string option \<Rightarrow> string list option \<Rightarrow> bool" where
  "require_auth path excluded_paths =
     (case path of
        None \<Rightarrow> True
      | Some p \<Rightarrow>
          (case excluded_paths of
             None \<Rightarrow> True
           | Some excluded \<Rightarrow>
               if length excluded = 0 then True
               else
                 let p' = rstrip CHR ''/'' p @ ''/''
                 in \<not> list_ex (\<lambda>excluded_path. prefix excluded_path p') excluded))"



text \<open>
  The two library calls of \<open>decode_base64_authorization_header\<close> return or raise: for a \<open>str\<close>
  argument \<open>base64.b64decode\<close> raises \<open>ValueError\<close> when a character is not ASCII and
  \<open>binascii.Error\<close> when the last group of data characters is incomplete, and \<open>bytes.decode\<close>
  raises \<open>UnicodeDecodeError\<close>.
\<close>

datatype decode_error = Ascii_ValueError | Binascii_Error | UnicodeDecodeError

text \<open>The value of a character of the base64 alphabet: \<open>A-Z\<close>, \<open>a-z\<close>, \<open>0-9\<close>, \<open>+\<close>, \<open>/\<close>.\<close>

definition b64_value :: "char \<Rightarrow> nat option" where
  "b64_value c =
     (let n = (of_char c :: nat) in
      if 65 \<le> n \<and> n \<le> 90 then Some (n - 65)
      else if 97 \<le> n \<and> n \<le> 122 then Some (n - 71)
      else if 48 \<le> n \<and> n \<le> 57 then Some (n + 4)
      else if n = 43 then Some 62
      else if n = 47 then Some 63
      else None)"

text \<open>
  \<open>binascii.a2b_base64\<close> of CPython 3.11 as \<open>base64.b64decode\<close> calls it (not in strict mode),
  one character at a time. \<open>quad\<close> is the position in the group of four data characters,
  \<open>left\<close> the bits of the group not yet written, \<open>pads\<close> the number of \<open>=\<close> since the last data
  character, \<open>out\<close> the bytes written. A character outside the alphabet is skipped; \<open>=\<close> is
  skipped too unless it completes a group that holds at least two data characters, and then
  decoding stops and the rest of the input is not read.
\<close>

fun a2b_base64 :: "nat \<Rightarrow> nat \<Rightarrow> nat \<Rightarrow> string \<Rightarrow> string \<Rightarrow> decode_error + string" where
  "a2b_base64 quad left pads out [] = (if quad \<noteq> 0 then Inl Binascii_Error else Inr out)"
| "a2b_base64 quad left pads out (c # cs) =
     (if c = CHR ''='' then
        (if 2 \<le> quad then
           (if 4 \<le> quad + (pads + 1) then Inr out
            else a2b_base64 quad left (pads + 1) out cs)
         else a2b_base64 quad left pads out cs)
      else
        (case b64_value c of
           None \<Rightarrow> a2b_base64 quad left pads out cs
         | Some v \<Rightarrow>
             if quad = 0 then a2b_base64 1 v 0 out cs
             else if quad = 1 then
               a2b_base64 2 (v mod 16) 0 (out @ [char_of (left * 4 + v div 16)]) cs
             else if quad = 2 then
               a2b_base64 3 (v mod 4) 0 (out @ [char_of (left * 16 + v div 4)]) cs
             else a2b_base64 0 0 0 (out @ [char_of (left * 64 + v)]) cs))"

text \<open>\<open>base64.b64decode(s)\<close> for a \<open>str\<close>: \<open>s.encode('ascii')\<close>, then \<open>binascii.a2b_base64\<close>.\<close>

definition b64decode :: "string \<Rightarrow> decode_error + string" where
  "b64decode s =
     (if list_ex (\<lambda>c. 128 \<le> (of_char c :: nat)) s then Inl Ascii_ValueError
      else a2b_base64 0 0 0 [] s)"








text \<open>\<open>BasicAuth.extract_user_credentials\<close>: \<open>split(':', 1)\<close> cuts at the first colon.\<close>

definition extract_user_credentials :: "string option \<Rightarrow> string option \<times> string option" where
  "extract_user_credentials decoded_base64_authorization_header =
     (case decoded_base64_authorization_header of
        None \<Rightarrow> (None, None)
      | Some d \<Rightarrow>
          if CHR '':'' \<notin> set d then (None, None)
          else (Some (takeWhile (\<lambda>c. c \<noteq> CHR '':'') d),
                Some (drop 1 (dropWhile (\<lambda>c. c \<noteq> CHR '':'') d))))"



section \<open>Concrete values\<close>

text \<open>
  An instance of the library parameters and a small table, on which the definitions are
  evaluated. The instance is not bcrypt: its hash is the first byte of the salt followed by
  the password, and verification compares what follows the first byte. Like bcrypt 5 it
  raises \<open>ValueError\<close> for a password of more than 72 bytes, and its \<open>checkpw\<close> for a stored
  value that is no hash.
\<close>

definition password_too_long :: error where
  "password_too_long =
     ValueError (''password cannot be longer than 72 bytes, ''
                 @ ''truncate manually if necessary (e.g. my_password[:72])'')"

definition example_hashpw :: "string \<Rightarrow> string \<Rightarrow> error + string" where
  "example_hashpw password salt =
     (if 72 < length password then Inl password_too_long
      else Inr ((case salt of [] \<Rightarrow> CHR ''.'' | c # cs \<Rightarrow> c) # password))"

definition example_checkpw :: "string \<Rightarrow> string \<Rightarrow> error + bool" where
  "example_checkpw password hashed =
     (if 72 < length password then Inl password_too_long
      else (case hashed of
              [] \<Rightarrow> Inl (ValueError ''Invalid salt'')
            | c # rest \<Rightarrow> Inr (rest = password)))"

definition example_lib :: lib where
  "example_lib = \<lparr>base_attr = (\<lambda>key. key = ''metadata''),
                   hashpw = example_hashpw, checkpw = example_checkpw\<rparr>"


definition alice :: user where
  "alice = \<lparr>id' = 1, email = ''alice@example.com'', hashed_password = ''sPW1'',
             session_id = None, reset_token = None\<rparr>"

definition bob :: user where
  "bob = \<lparr>id' = 2, email = ''bob@example.com'', hashed_password = ''tPW2'',
           session_id = Some ''5e1f'', reset_token = None\<rparr>"



section \<open>The store: lookups and updates\<close>

lemma int64_py_id [simp]: "int64 (py_id u)"
  using sint_ge [of "id' u"] sint_lt [of "id' u"] by (simp add: int64_def py_id_def)

lemma py_id_eq_iff [simp]: "py_id u = py_id v \<longleftrightarrow> id' u = id' v"
  by (auto simp: py_id_def intro: signed_word_eqI)

lemma word_of_int_py_id [simp]: "word_of_int (py_id u) = id' u"
  by (simp add: py_id_def)

lemma sint_word_of_int64: "int64 n \<Longrightarrow> sint (word_of_int n :: 64 word) = n"
  by (simp add: int64_def sint_sbintrunc' signed_take_bit_int_eq_self)

lemma py_id_eq_int_iff: "int64 n \<Longrightarrow> py_id u = n \<longleftrightarrow> id' u = word_of_int n"
  using sint_word_of_int64 [of n] word_of_int_py_id [of u] by (auto simp: py_id_def)

lemma getattr_User_columns [simp]:
  "getattr_User L ''id'' = Some (Column Col_id)"
  "getattr_User L ''email'' = Some (Column Col_email)"
  "getattr_User L ''hashed_password'' = Some (Column Col_hashed_password)"
  "getattr_User L ''session_id'' = Some (Column Col_session_id)"
  "getattr_User L ''reset_token'' = Some (Column Col_reset_token)"
  by (simp_all add: getattr_User_def)

lemma row_matches_id [simp]: "row_matches [(Col_id, PInt n)] = (\<lambda>u. py_id u = n)"
  by (auto simp: row_matches_def sql_eq_def fun_eq_iff)

lemma row_matches_email [simp]: "row_matches [(Col_email, PStr e)] = (\<lambda>u. email u = e)"
  by (auto simp: row_matches_def sql_eq_def fun_eq_iff)

lemma row_matches_session_id [simp]:
  "row_matches [(Col_session_id, PStr s)] = (\<lambda>u. session_id u = Some s)"
  by (auto simp: row_matches_def sql_eq_def fun_eq_iff split: option.splits)

lemma row_matches_reset_token [simp]:
  "row_matches [(Col_reset_token, PStr s)] = (\<lambda>u. reset_token u = Some s)"
  by (auto simp: row_matches_def sql_eq_def fun_eq_iff split: option.splits)

lemma find_user_by_id:
  "find_user_by L db [(''id'', PInt n)] =
     (if \<not> int64 n then Inl OverflowError
      else case find (\<lambda>u. py_id u = n) db of None \<Rightarrow> Inl NoResultFound | Some u \<Rightarrow> Inr u)"
  by (simp add: find_user_by_def)

lemma find_user_by_email:
  "find_user_by L db [(''email'', PStr e)] =
     (case find (\<lambda>u. email u = e) db of None \<Rightarrow> Inl NoResultFound | Some u \<Rightarrow> Inr u)"
  by (simp add: find_user_by_def)

lemma find_user_by_session_id:
  "find_user_by L db [(''session_id'', PStr s)] =
     (case find (\<lambda>u. session_id u = Some s) db of None \<Rightarrow> Inl NoResultFound | Some u \<Rightarrow> Inr u)"
  by (simp add: find_user_by_def)

lemma find_user_by_reset_token:
  "find_user_by L db [(''reset_token'', PStr s)] =
     (case find (\<lambda>u. reset_token u = Some s) db of None \<Rightarrow> Inl NoResultFound | Some u \<Rightarrow> Inr u)"
  by (simp add: find_user_by_def)

lemma find_unique:
  assumes "x \<in> set xs" and "P x" and "\<And>y. y \<in> set xs \<Longrightarrow> P y \<Longrightarrow> y = x"
  shows "find P xs = Some x"
proof (cases "find P xs")
  case None
  with assms(1,2) show ?thesis by (auto simp: find_None_iff)
next
  case (Some y)
  then have "y \<in> set xs" and "P y"
    by (auto simp: find_Some_iff)
  with assms(3) Some show ?thesis by simp
qed

lemma find_SomeD: "find P xs = Some x \<Longrightarrow> x \<in> set xs \<and> P x"
  by (auto simp: find_Some_iff)


lemma find_user_by_id_member:
  assumes "a \<in> set db"
  shows "\<exists>u. find_user_by L db [(''id'', PInt (py_id a))] = Inr u"
proof -
  have "find (\<lambda>u. id' u = id' a) db \<noteq> None"
    using assms by (auto simp: find_None_iff)
  then show ?thesis
    by (auto simp: find_user_by_id)
qed

lemma update_user_session_id:
  assumes "a \<in> set db"
  shows "update_user L db (py_id a) [(''session_id'', PStr t)] =
           (map (\<lambda>u. if id' u = id' a then u\<lparr>session_id := Some t\<rparr> else u) db, Inr ())"
  using find_user_by_id_member [OF assms, of L]
  by (auto simp: update_user_def sql_update_def)

lemma update_user_session_id_None:
  assumes "a \<in> set db"
  shows "update_user L db (py_id a) [(''session_id'', PNone)] =
           (map (\<lambda>u. if id' u = id' a then u\<lparr>session_id := None\<rparr> else u) db, Inr ())"
  using find_user_by_id_member [OF assms, of L]
  by (auto simp: update_user_def sql_update_def)

lemma update_user_reset_token:
  assumes "a \<in> set db"
  shows "update_user L db (py_id a) [(''reset_token'', PStr t)] =
           (map (\<lambda>u. if id' u = id' a then u\<lparr>reset_token := Some t\<rparr> else u) db, Inr ())"
  using find_user_by_id_member [OF assms, of L]
  by (auto simp: update_user_def sql_update_def)

lemma update_user_password:
  assumes "a \<in> set db"
  shows "update_user L db (py_id a) [(''hashed_password'', PStr h), (''reset_token'', PNone)] =
           (map (\<lambda>u. if id' u = id' a then u\<lparr>hashed_password := h, reset_token := None\<rparr> else u) db,
            Inr ())"
  using find_user_by_id_member [OF assms, of L]
  by (auto simp: update_user_def sql_update_def)

lemma update_user_missing_id:
  assumes "list_all (\<lambda>u. py_id u \<noteq> n) db" and "int64 n"
  shows "update_user L db n kwargs = (db, Inl NoResultFound)"
proof -
  have "find (\<lambda>u. py_id u = n) db = None"
    using assms by (simp add: find_None_iff list_all_iff)
  then show ?thesis
    using assms(2) by (simp add: update_user_def find_user_by_id)
qed

lemma update_user_unbindable_id:
  assumes "\<not> int64 n"
  shows "update_user L db n kwargs = (db, Inl OverflowError)"
  using assms by (simp add: update_user_def find_user_by_id)

subsection \<open>Well-formed tables\<close>

lemma wf_db_distinct: "wf_db db \<Longrightarrow> distinct (map id' db)"
proof -
  assume "wf_db db"
  then have "distinct (map py_id db)"
    by (simp add: wf_db_def strict_sorted_iff)
  then show ?thesis
    by (auto simp: distinct_map inj_on_def)
qed

lemma wf_db_positive: "wf_db db \<Longrightarrow> a \<in> set db \<Longrightarrow> 0 < py_id a"
  by (simp add: wf_db_def list_all_iff)

lemma wf_db_nonzero: "wf_db db \<Longrightarrow> a \<in> set db \<Longrightarrow> py_id a \<noteq> 0"
  using wf_db_positive [of db a] by simp

lemma same_id_same_row: "wf_db db \<Longrightarrow> u \<in> set db \<Longrightarrow> a \<in> set db \<Longrightarrow> id' u = id' a \<Longrightarrow> u = a"
  using wf_db_distinct [of db] by (auto simp: distinct_map inj_on_def)

lemma wf_db_map:
  assumes "wf_db db" and "\<And>u. id' (f u) = id' u"
  shows "wf_db (map f db)"
proof -
  have "py_id \<circ> f = py_id"
    using assms(2) by (simp add: fun_eq_iff py_id_def)
  then show ?thesis
    using assms by (simp add: wf_db_def list_all_iff py_id_def)
qed

lemma py_id_next_id:
  assumes "db \<noteq> []" and "rowids_left db"
  shows "sint (next_id db) = Max (set (map py_id db)) + 1"
proof -
  have "Max (set (map py_id db)) \<in> set (map py_id db)"
    using assms(1) by (intro Max_in) simp_all
  then obtain u where u: "u \<in> set db" and m: "Max (set (map py_id db)) = py_id u"
    by auto
  have "py_id u < 2 ^ 63 - 1"
    using u assms(2) by (simp add: rowids_left_def list_all_iff)
  moreover have "- (2 ^ 63) \<le> py_id u"
    using int64_py_id [of u] by (simp only: int64_def)
  ultimately have i: "int64 (py_id u + 1)"
    by (simp add: int64_def)
  have "next_id db = word_of_int (Max (set (map py_id db)) + 1)"
    using assms(1) by (simp only: next_id_def if_False)
  then have "sint (next_id db) = sint (word_of_int (py_id u + 1) :: 64 word)"
    by (simp only: m)
  also have "\<dots> = py_id u + 1"
    using i by (rule sint_word_of_int64)
  finally show ?thesis
    by (simp only: m)
qed

lemma next_id_greater:
  assumes "u \<in> set db" and "rowids_left db"
  shows "py_id u < sint (next_id db)"
proof -
  from assms(1) have "py_id u \<le> Max (set (map py_id db))" and ne: "db \<noteq> []"
    by (auto intro: Max_ge)
  then show ?thesis
    by (simp add: py_id_next_id [OF ne assms(2)])
qed

lemma next_id_positive: "wf_db db \<Longrightarrow> rowids_left db \<Longrightarrow> 0 < sint (next_id db)"
proof (cases db)
  case Nil
  then show ?thesis by (simp add: next_id_def)
next
  case (Cons u us)
  assume "wf_db db" and left: "rowids_left db"
  then have "0 < py_id u" using Cons by (simp add: wf_db_def)
  moreover have "py_id u < sint (next_id db)" using Cons left by (intro next_id_greater) simp_all
  ultimately show ?thesis by simp
qed

lemma wf_db_add_user:
  assumes "wf_db db" and "rowids_left db"
  shows "wf_db (fst (add_user db email_arg hashed_arg))"
proof (cases "\<exists>e h. email_arg = Some e \<and> hashed_arg = Some h")
  case True
  then obtain e h where a: "email_arg = Some e" "hashed_arg = Some h"
    by blast
  define new_user where "new_user = \<lparr>id' = next_id db, email = e, hashed_password = h,
    session_id = None, reset_token = None\<rparr>"
  have pid: "py_id new_user = sint (next_id db)"
    by (simp add: new_user_def py_id_def)
  have "wf_db (db @ [new_user])"
    using assms next_id_greater [OF _ assms(2)] next_id_positive [OF assms]
    by (auto simp: wf_db_def sorted_wrt_append pid)
  then show ?thesis
    by (simp add: a add_user_def new_user_def Let_def)
next
  case False
  then show ?thesis
    using assms(1) by (auto simp: add_user_def split: option.splits)
qed

subsection \<open>Registration\<close>

lemma add_user_appends:
  "add_user db (Some e) (Some h) =
     (db @ [\<lparr>id' = next_id db, email = e, hashed_password = h,
              session_id = None, reset_token = None\<rparr>],
      Some \<lparr>id' = next_id db, email = e, hashed_password = h,
              session_id = None, reset_token = None\<rparr>)"
  by (simp add: add_user_def Let_def)

lemma register_user_existing:
  assumes "list_ex (\<lambda>u. email u = e) db"
  shows "register_user L db e p salt = (db, Inl (ValueError (''User '' @ e @ '' already exists'')))"
proof -
  from assms obtain u where "find (\<lambda>u. email u = e) db = Some u"
    by (cases "find (\<lambda>u. email u = e) db") (auto simp: find_None_iff list_ex_iff)
  then show ?thesis
    by (simp add: register_user_def find_user_by_email)
qed

lemma register_user_new:
  assumes "\<not> list_ex (\<lambda>u. email u = e) db" and "hashpw L (encode_utf8 p) salt = Inr h"
  shows "register_user L db e p salt =
           (db @ [\<lparr>id' = next_id db, email = e, hashed_password = h,
                    session_id = None, reset_token = None\<rparr>],
            Inr (Some \<lparr>id' = next_id db, email = e, hashed_password = h,
                       session_id = None, reset_token = None\<rparr>))"
proof -
  have "find (\<lambda>u. email u = e) db = None"
    using assms(1) by (simp add: find_None_iff list_ex_iff)
  then show ?thesis
    using assms(2)
    by (simp add: register_user_def find_user_by_email add_user_appends hash_password_def)
qed

lemma register_user_hash_raises:
  assumes "\<not> list_ex (\<lambda>u. email u = e) db" and "hashpw L (encode_utf8 p) salt = Inl err"
  shows "register_user L db e p salt = (db, Inl err)"
proof -
  have "find (\<lambda>u. email u = e) db = None"
    using assms(1) by (simp add: find_None_iff list_ex_iff)
  then show ?thesis
    using assms(2) by (simp add: register_user_def find_user_by_email hash_password_def)
qed

lemma except_NoResultFound_simps [simp]:
  "except_NoResultFound (Inr b) = Inr b"
  "except_NoResultFound (Inl NoResultFound) = Inr False"
  "err \<noteq> NoResultFound \<Longrightarrow> except_NoResultFound (Inl err) = Inl err"
  by (simp_all add: except_NoResultFound_def split: error.splits)



subsection \<open>Every operation of Auth leaves a well-formed table well-formed\<close>

lemma update_user_no_row_or_row:
  "list_all (\<lambda>u. py_id u \<noteq> n) db \<or> (\<exists>a \<in> set db. py_id a = n)"
  by (auto simp: list_all_iff)

lemma wf_db_register_user:
  "wf_db db \<Longrightarrow> rowids_left db \<Longrightarrow> wf_db (fst (register_user L db e p salt))"
proof (cases "list_ex (\<lambda>u. email u = e) db")
  case True
  assume "wf_db db"
  then show ?thesis by (simp add: register_user_existing [OF True])
next
  case False
  assume wf: "wf_db db" and left: "rowids_left db"
  show ?thesis
  proof (cases "hashpw L (encode_utf8 p) salt")
    case (Inl err)
    then show ?thesis using wf by (simp add: register_user_hash_raises [OF False Inl])
  next
    case (Inr h)
    from wf left have "wf_db (fst (add_user db (Some e) (Some h)))"
      by (rule wf_db_add_user)
    then show ?thesis
      by (simp add: register_user_new [OF False Inr] add_user_appends)
  qed
qed

lemma wf_db_create_session: "wf_db db \<Longrightarrow> wf_db (fst (create_session L db e t))"
proof (cases "find (\<lambda>u. email u = e) db")
  case None
  assume "wf_db db"
  then show ?thesis by (simp add: create_session_def find_user_by_email None)
next
  case (Some a)
  assume wf: "wf_db db"
  have "a \<in> set db" using find_SomeD [OF Some] by simp
  then show ?thesis
    using wf by (simp add: create_session_def find_user_by_email Some update_user_session_id wf_db_map)
qed

lemma wf_db_get_reset_password_token:
  "wf_db db \<Longrightarrow> wf_db (fst (get_reset_password_token L db e t))"
proof (cases "find (\<lambda>u. email u = e) db")
  case None
  assume "wf_db db"
  then show ?thesis by (simp add: get_reset_password_token_def find_user_by_email None)
next
  case (Some a)
  assume wf: "wf_db db"
  have "a \<in> set db" using find_SomeD [OF Some] by simp
  then show ?thesis
    using wf
    by (simp add: get_reset_password_token_def find_user_by_email Some update_user_reset_token wf_db_map)
qed

lemma wf_db_update_password:
  "wf_db db \<Longrightarrow> wf_db (fst (update_password L db t p salt))"
proof (cases "find (\<lambda>u. reset_token u = Some t) db")
  case None
  assume "wf_db db"
  then show ?thesis by (simp add: update_password_def find_user_by_reset_token None)
next
  case (Some a)
  assume wf: "wf_db db"
  have "a \<in> set db" using find_SomeD [OF Some] by simp
  then show ?thesis
    using wf
    by (cases "hashpw L (encode_utf8 p) salt")
      (simp_all add: update_password_def find_user_by_reset_token Some update_user_password
        wf_db_map hash_password_def)
qed

lemma wf_db_destroy_session: "wf_db db \<Longrightarrow> wf_db (fst (destroy_session L db user_id))"
proof (cases user_id)
  case None
  assume "wf_db db"
  then show ?thesis by (simp add: destroy_session_def None)
next
  case (Some n)
  assume wf: "wf_db db"
  consider "n = 0" | "\<not> int64 n" | "n \<noteq> 0" "int64 n" "list_all (\<lambda>u. py_id u \<noteq> n) db"
    | a where "n \<noteq> 0" "a \<in> set db" "py_id a = n"
    using update_user_no_row_or_row [of n db] by blast
  then show ?thesis
  proof cases
    case 1
    then show ?thesis using wf by (simp add: destroy_session_def Some)
  next
    case 2
    then show ?thesis using wf by (simp add: destroy_session_def Some update_user_unbindable_id)
  next
    case 3
    then show ?thesis using wf by (simp add: destroy_session_def Some update_user_missing_id)
  next
    case 4
    then show ?thesis
      using wf update_user_session_id_None [of a db L]
      by (auto simp: destroy_session_def Some wf_db_map)
  qed
qed

lemma wf_db_example: "wf_db [alice, bob]"
  by (simp add: wf_db_def alice_def bob_def py_id_def)

lemma py_id_alice [simp]: "py_id alice = 1"
  by (simp add: py_id_def alice_def)

lemma py_id_bob [simp]: "py_id bob = 2"
  by (simp add: py_id_def bob_def)

section \<open>Registration (C1)\<close>




section \<open>Password hashing and login (C2)\<close>




section \<open>Sessions (C3)\<close>

text \<open>
  Claim C3. For a registered account with email \<open>e\<close>, if \<open>create_session(e)\<close> returns the
  token \<open>t\<close>, then \<open>get_user_from_session_id(t)\<close> returns that account (now holding \<open>t\<close>), and
  after \<open>destroy_session\<close> with the account's id it returns \<open>None\<close>.

  \<open>t\<close> is what \<open>uuid4\<close> gave: a string that is not empty and that no other account holds as its
  session id. The code does not check either; they are the hypotheses on \<open>t\<close>.
\<close>

theorem session_roundtrip:
  assumes wf: "wf_db db"
    and reg: "find (\<lambda>u. email u = e) db = Some a"
    and nonempty: "t \<noteq> []"
    and fresh: "list_all (\<lambda>u. id' u = id' a \<or> session_id u \<noteq> Some t) db"
  shows "let db1 = fst (create_session L db e t);
             db2 = fst (destroy_session L db1 (Some (py_id a)))
         in snd (create_session L db e t) = Inr (Some t)
          \<and> get_user_from_session_id L db1 (Some t) = Inr (Some (a\<lparr>session_id := Some t\<rparr>))
          \<and> snd (destroy_session L db1 (Some (py_id a))) = Inr ()
          \<and> get_user_from_session_id L db2 (Some t) = Inr None"
proof -
  define f :: "user \<Rightarrow> user"
    where "f = (\<lambda>u. if id' u = id' a then u\<lparr>session_id := Some t\<rparr> else u)"
  define g :: "user \<Rightarrow> user"
    where "g = (\<lambda>u. if id' u = id' a then u\<lparr>session_id := None\<rparr> else u)"
  define db1 where "db1 = map f db"
  define db2 where "db2 = map g db1"
  have a_in: "a \<in> set db"
    using find_SomeD [OF reg] by simp
  have create: "create_session L db e t = (db1, Inr (Some t))"
    using reg update_user_session_id [OF a_in, of L t]
    by (simp add: create_session_def find_user_by_email db1_def f_def)
  have fa_in: "f a \<in> set db1" and id_fa: "id' (f a) = id' a" and fa: "f a = a\<lparr>session_id := Some t\<rparr>"
    using a_in by (auto simp: db1_def f_def)
  have pid_fa: "py_id (f a) = py_id a"
    by (simp add: id_fa)
  have only: "y = f a" if "y \<in> set db1" and "session_id y = Some t" for y
  proof -
    from that(1) obtain u where u: "u \<in> set db" and y: "y = f u"
      by (auto simp: db1_def)
    have "id' u = id' a"
    proof (rule ccontr)
      assume neq: "id' u \<noteq> id' a"
      then have "session_id u \<noteq> Some t"
        using fresh u by (auto simp: list_all_iff)
      with neq that(2) y show False by (simp add: f_def)
    qed
    then have "u = a" using same_id_same_row [OF wf u a_in] by simp
    with y show ?thesis by simp
  qed
  have "find (\<lambda>u. session_id u = Some t) db1 = Some (f a)"
  proof (rule find_unique)
    show "f a \<in> set db1" by (rule fa_in)
    show "session_id (f a) = Some t" by (simp add: f_def)
    show "y = f a" if "y \<in> set db1" and "session_id y = Some t" for y
      using that by (rule only)
  qed
  then have lookup: "get_user_from_session_id L db1 (Some t) = Inr (Some (a\<lparr>session_id := Some t\<rparr>))"
    using nonempty by (simp add: get_user_from_session_id_def find_user_by_session_id fa)
  have "py_id a \<noteq> 0"
    by (rule wf_db_nonzero [OF wf a_in])
  then have destroy: "destroy_session L db1 (Some (py_id a)) = (db2, Inr ())"
    using update_user_session_id_None [OF fa_in, of L]
    by (simp add: destroy_session_def id_fa pid_fa db2_def g_def)
  have "session_id y \<noteq> Some t" if "y \<in> set db2" for y
  proof -
    from that obtain u where u: "u \<in> set db" and y: "y = g (f u)"
      by (auto simp: db2_def db1_def)
    show ?thesis
    proof (cases "id' u = id' a")
      case True
      then show ?thesis by (simp add: y f_def g_def)
    next
      case False
      then have "session_id u \<noteq> Some t"
        using fresh u by (auto simp: list_all_iff)
      with False show ?thesis by (simp add: y f_def g_def)
    qed
  qed
  then have "find (\<lambda>u. session_id u = Some t) db2 = None"
    by (simp add: find_None_iff)
  then have gone: "get_user_from_session_id L db2 (Some t) = Inr None"
    using nonempty by (simp add: get_user_from_session_id_def find_user_by_session_id)
  show ?thesis
    by (simp add: create destroy lookup gone)
qed

theorem session_roundtrip_witness:
  "snd (create_session example_lib [alice, bob] ''alice@example.com'' ''9c2d'') = Inr (Some ''9c2d'')
   \<and> get_user_from_session_id example_lib
        (fst (create_session example_lib [alice, bob] ''alice@example.com'' ''9c2d'')) (Some ''9c2d'')
        = Inr (Some (alice\<lparr>session_id := Some ''9c2d''\<rparr>))
   \<and> get_user_from_session_id example_lib
        (fst (destroy_session example_lib
               (fst (create_session example_lib [alice, bob] ''alice@example.com'' ''9c2d''))
               (Some (py_id alice))))
        (Some ''9c2d'') = Inr None"
proof -
  have reg: "find (\<lambda>u. email u = ''alice@example.com'') [alice, bob] = Some alice"
    by (simp add: alice_def)
  have nonempty: "''9c2d'' \<noteq> []"
    by simp
  have fresh: "list_all (\<lambda>u. id' u = id' alice \<or> session_id u \<noteq> Some ''9c2d'') [alice, bob]"
    by (simp add: alice_def bob_def)
  show ?thesis
    using session_roundtrip [OF wf_db_example reg nonempty fresh, of example_lib]
    by (simp add: Let_def)
qed

section \<open>Password reset (C4)\<close>




section \<open>The store does not check emails (C5)\<close>

text \<open>
  Claim C5 says that the store's insert itself enforces email uniqueness: on a table that
  holds an account with email \<open>e\<close>, \<open>insert(e, h)\<close> fails with \<open>DuplicateEmail\<close> and never
  gives a table with two accounts of the same email. \<open>add_user\<close> has no lookup and the
  column no UNIQUE constraint: on the table that holds \<open>alice\<close> it inserts a second
  account with her email.
\<close>

theorem add_user_duplicate_email_counterexample:
  "add_user [alice] (Some ''alice@example.com'') (Some ''xPW3'') =
     ([alice, \<lparr>id' = 2, email = ''alice@example.com'', hashed_password = ''xPW3'',
               session_id = None, reset_token = None\<rparr>],
      Some \<lparr>id' = 2, email = ''alice@example.com'', hashed_password = ''xPW3'',
            session_id = None, reset_token = None\<rparr>)
   \<and> \<not> distinct (map email (fst (add_user [alice] (Some ''alice@example.com'') (Some ''xPW3''))))"
  by (simp add: add_user_def next_id_def alice_def Let_def py_id_def)

text \<open>
  Claim C5, amended. \<open>add_user\<close> with an email and a hash always inserts, whatever the table
  holds. Uniqueness is kept one layer up: \<open>register_user\<close> looks the email up first and
  raises \<open>ValueError\<close> before any insert, so a table whose emails are pairwise distinct stays
  so under \<open>register_user\<close>.
\<close>

theorem register_user_keeps_emails_distinct:
  "(\<exists>new_user. add_user db (Some e) (Some h) = (db @ [new_user], Some new_user)
       \<and> email new_user = e \<and> hashed_password new_user = h)
   \<and> (list_ex (\<lambda>u. email u = e) db \<longrightarrow>
        register_user L db e p salt
          = (db, Inl (ValueError (''User '' @ e @ '' already exists''))))
   \<and> (distinct (map email db) \<longrightarrow>
        distinct (map email (fst (register_user L db e p salt))))"
proof (intro conjI impI)
  show "\<exists>new_user. add_user db (Some e) (Some h) = (db @ [new_user], Some new_user)
       \<and> email new_user = e \<and> hashed_password new_user = h"
    by (simp add: add_user_appends)
  show "register_user L db e p salt = (db, Inl (ValueError (''User '' @ e @ '' already exists'')))"
    if "list_ex (\<lambda>u. email u = e) db"
    by (rule register_user_existing [OF that])
  show "distinct (map email (fst (register_user L db e p salt)))" if d: "distinct (map email db)"
  proof (cases "list_ex (\<lambda>u. email u = e) db")
    case True
    then show ?thesis
      using d by (simp add: register_user_existing)
  next
    case False
    then have "e \<notin> email ` set db"
      by (auto simp: list_ex_iff)
    then show ?thesis
      using d
      by (cases "hashpw L (encode_utf8 p) salt")
        (simp_all add: register_user_new [OF False] register_user_hash_raises [OF False])
  qed
qed

theorem register_user_keeps_emails_distinct_witness:
  "distinct (map email [alice, bob])
   \<and> distinct (map email (fst (register_user example_lib [alice, bob] ''carol@example.com'' ''PW3'' ''u'')))
   \<and> register_user example_lib [alice, bob] ''bob@example.com'' ''PW3'' ''u''
        = ([alice, bob], Inl (ValueError ''User bob@example.com already exists''))"
  using register_user_keeps_emails_distinct
      [of "[alice, bob]" "''carol@example.com''" "''x''" example_lib "''PW3''" "''u''"]
    register_user_keeps_emails_distinct
      [of "[alice, bob]" "''bob@example.com''" "''x''" example_lib "''PW3''" "''u''"]
  by (simp add: alice_def bob_def)

section \<open>Which paths need authentication (C6)\<close>

lemma rstrip_no_trailing: "rstrip c s = [] \<or> last (rstrip c s) \<noteq> c"
proof -
  have "dropWhile (\<lambda>x. x = c) (rev s) \<noteq> [] \<Longrightarrow> hd (dropWhile (\<lambda>x. x = c) (rev s)) \<noteq> c"
    by (rule hd_dropWhile)
  then show ?thesis
    by (auto simp only: rstrip_def last_rev rev_is_Nil_conv)
qed

text \<open>
  Claim C6 says that \<open>require_auth\<close> normalizes the trailing slash of \<open>path\<close> and of each
  excluded entry, returns false exactly when the normalized path has one of the excluded
  paths as a prefix, and returns true when \<open>path\<close> or \<open>excluded_paths\<close> is empty. The code
  rewrites \<open>path\<close> only and compares it with the entries as they are given: with the entry
  \<open>/api/v1/stat\<close>, which normalized is no prefix of the normalized path \<open>/api/v1/status/\<close>, the
  path \<open>/api/v1/status\<close> needs no authentication.
\<close>

theorem require_auth_normalizes_excluded_counterexample:
  "require_auth (Some ''/api/v1/status'') (Some [''/api/v1/stat'']) = False
   \<and> \<not> prefix (rstrip CHR ''/'' ''/api/v1/stat'' @ ''/'') (rstrip CHR ''/'' ''/api/v1/status'' @ ''/'')"
  by (simp add: require_auth_def rstrip_def)

text \<open>
  Claim C6, amended. \<open>require_auth\<close> returns true when \<open>path\<close> is \<open>None\<close> and when
  \<open>excluded_paths\<close> is \<open>None\<close> or empty. Otherwise it strips every trailing slash from
  \<open>path\<close> and appends one, and returns false exactly when this normalized path starts with
  one of the excluded entries, taken as given. Where every entry already ends with exactly
  one slash, that is the claim's own condition. The three examples of the claim hold.
\<close>

theorem require_auth_checks_prefix_of_normalized_path:
  "require_auth None excluded_paths = True
   \<and> require_auth path None = True
   \<and> require_auth path (Some []) = True
   \<and> (excluded \<noteq> [] \<longrightarrow>
        (require_auth (Some p) (Some excluded) = False)
          = (\<exists>x \<in> set excluded. prefix x (rstrip CHR ''/'' p @ ''/'')))
   \<and> (rstrip CHR ''/'' p = [] \<or> last (rstrip CHR ''/'' p) \<noteq> CHR ''/'')
   \<and> (excluded \<noteq> [] \<and> (\<forall>x \<in> set excluded. rstrip CHR ''/'' x @ ''/'' = x) \<longrightarrow>
        (require_auth (Some p) (Some excluded) = False)
          = (\<exists>x \<in> set excluded. prefix (rstrip CHR ''/'' x @ ''/'') (rstrip CHR ''/'' p @ ''/'')))
   \<and> require_auth (Some ''/api/v1/status/'') (Some [''/api/v1/status/'']) = False
   \<and> require_auth (Some ''/api/v1/status'') (Some [''/api/v1/status/'']) = False
   \<and> require_auth (Some ''/api/v1/other/'') (Some [''/api/v1/status/'']) = True"
proof (intro conjI impI)
  show "rstrip CHR ''/'' p = [] \<or> last (rstrip CHR ''/'' p) \<noteq> CHR ''/''"
    by (rule rstrip_no_trailing)
  show "require_auth None excluded_paths = True"
    by (simp add: require_auth_def)
  show "require_auth path None = True"
    by (simp add: require_auth_def split: option.splits)
  show "require_auth path (Some []) = True"
    by (simp add: require_auth_def split: option.splits)
  show iff: "(require_auth (Some p) (Some excluded) = False)
          = (\<exists>x \<in> set excluded. prefix x (rstrip CHR ''/'' p @ ''/''))" if "excluded \<noteq> []"
    using that by (simp add: require_auth_def list_ex_iff)
  show "(require_auth (Some p) (Some excluded) = False)
          = (\<exists>x \<in> set excluded. prefix (rstrip CHR ''/'' x @ ''/'') (rstrip CHR ''/'' p @ ''/''))"
    if "excluded \<noteq> [] \<and> (\<forall>x \<in> set excluded. rstrip CHR ''/'' x @ ''/'' = x)"
  proof -
    have "(\<exists>x \<in> set excluded. prefix (rstrip CHR ''/'' x @ ''/'') (rstrip CHR ''/'' p @ ''/''))
        = (\<exists>x \<in> set excluded. prefix x (rstrip CHR ''/'' p @ ''/''))"
      using that by (intro bex_cong refl) metis
    with iff that show ?thesis by blast
  qed
  show "require_auth (Some ''/api/v1/status/'') (Some [''/api/v1/status/'']) = False"
    by (simp add: require_auth_def rstrip_def)
  show "require_auth (Some ''/api/v1/status'') (Some [''/api/v1/status/'']) = False"
    by (simp add: require_auth_def rstrip_def)
  show "require_auth (Some ''/api/v1/other/'') (Some [''/api/v1/status/'']) = True"
    by (simp add: require_auth_def rstrip_def)
qed

theorem require_auth_checks_prefix_of_normalized_path_witness:
  "require_auth (Some ''/api/v1/users//'') (Some [''/api/v1/status/'', ''/api/v1/users/'']) = False
   \<and> prefix ''/api/v1/users/'' (rstrip CHR ''/'' ''/api/v1/users//'' @ ''/'')
   \<and> rstrip CHR ''/'' ''/api/v1/users/'' @ ''/'' = ''/api/v1/users/''
   \<and> rstrip CHR ''/'' ''/api/v1/status/'' @ ''/'' = ''/api/v1/status/''
   \<and> require_auth (Some ''/api/v1/usersx'') (Some [''/api/v1/status/'', ''/api/v1/users/'']) = True
   \<and> require_auth (Some []) (Some [''/'']) = False"
  using require_auth_checks_prefix_of_normalized_path
      [of _ _ "[''/api/v1/status/'', ''/api/v1/users/'']" "''/api/v1/users//''"]
    require_auth_checks_prefix_of_normalized_path [of _ _ "[''/'']" "[]"]
    require_auth_checks_prefix_of_normalized_path
      [of _ _ "[''/api/v1/status/'', ''/api/v1/users/'']" "''/api/v1/usersx''"]
  by (simp add: rstrip_def)

section \<open>The current user of a request (C7)\<close>




lemma extract_user_credentials_shape:
  "extract_user_credentials x = (None, None)
   \<or> (\<exists>e p. extract_user_credentials x = (Some e, Some p))"
  by (simp add: extract_user_credentials_def split: option.splits)




subsection \<open>The base64 decoder\<close>

lemma b64_value_pad [simp]: "b64_value CHR ''='' = None"
  by (simp add: b64_value_def)







subsection \<open>The steps in order\<close>







subsection \<open>Concrete payloads\<close>




lemma b64decode_incomplete: "b64decode ''YUJ'' = Inl Binascii_Error"
  by code_simp






section \<open>Keys and values the store accepts (C8)\<close>






lemma columns_of_Column [simp]: "columns_of (map (\<lambda>(c, v). (Column c, v)) cvs) = cvs"
  by (induction cvs) auto



















section \<open>An update for an id that no account has (C9)\<close>

text \<open>
  Claim C9 says that \<open>update_user\<close> with an id matching no account returns silently, and
  that \<open>destroy_session\<close> with a falsy id changes nothing. The second half holds
  (\<open>destroy_session_falsy\<close>). The first does not: \<open>update_user\<close> tests \<open>user is None\<close> after
  the lookup, but \<open>find_user_by\<close> raises \<open>NoResultFound\<close> instead of returning \<open>None\<close>, and
  the exception leaves \<open>update_user\<close>; through it, it leaves \<open>destroy_session\<close> for a
  non-zero id that no account has.
\<close>

theorem update_user_missing_id_raises:
  "update_user L [alice] 5 [(''session_id'', PStr ''5e1f'')] = ([alice], Inl NoResultFound)
   \<and> destroy_session L [alice] (Some 5) = ([alice], Inl NoResultFound)"
  by (simp add: destroy_session_def update_user_missing_id int64_def)

lemma destroy_session_falsy:
  "destroy_session L db None = (db, Inr ())" "destroy_session L db (Some 0) = (db, Inr ())"
  by (simp_all add: destroy_session_def)

section \<open>An account without a session cannot be looked up (C10)\<close>

text \<open>
  Claim C10. For a falsy token, \<open>None\<close> or the empty string, \<open>get_user_from_session_id\<close>
  returns \<open>None\<close> in every state of the table, so without reading it; and whatever the token,
  the account it returns holds that token as its session id, so never an account whose
  session id is \<open>None\<close>, as it is before the first login and after \<open>destroy_session\<close>.
\<close>

theorem cleared_session_unreachable:
  "get_user_from_session_id L db None = Inr None
   \<and> get_user_from_session_id L db (Some []) = Inr None
   \<and> (get_user_from_session_id L db token = Inr (Some u) \<longrightarrow>
        u \<in> set db \<and> session_id u = token \<and> session_id u \<noteq> None \<and> token \<noteq> Some [])
   \<and> (a \<in> set db \<and> session_id a = None \<longrightarrow> get_user_from_session_id L db token \<noteq> Inr (Some a))
   \<and> (a \<in> set db \<and> py_id a \<noteq> 0 \<longrightarrow>
        snd (destroy_session L db (Some (py_id a))) = Inr ()
        \<and> list_all (\<lambda>u. id' u = id' a \<longrightarrow> session_id u = None)
             (fst (destroy_session L db (Some (py_id a)))))"
proof -
  have found: "u \<in> set db \<and> session_id u = token \<and> session_id u \<noteq> None \<and> token \<noteq> Some []"
    if "get_user_from_session_id L db token = Inr (Some u)" for u
  proof (cases token)
    case None
    with that show ?thesis by (simp add: get_user_from_session_id_def)
  next
    case (Some s)
    with that have s: "s \<noteq> []" and "find (\<lambda>u. session_id u = Some s) db = Some u"
      by (auto simp: get_user_from_session_id_def find_user_by_session_id
          split: if_splits option.splits)
    then show ?thesis
      using Some find_SomeD [of "\<lambda>u. session_id u = Some s" db u] by simp
  qed
  have cleared: "get_user_from_session_id L db token \<noteq> Inr (Some a)" if "session_id a = None"
    using found [of a] that by auto
  have destroyed: "snd (destroy_session L db (Some (py_id a))) = Inr ()
        \<and> list_all (\<lambda>u. id' u = id' a \<longrightarrow> session_id u = None)
             (fst (destroy_session L db (Some (py_id a))))"
    if "a \<in> set db" and "py_id a \<noteq> 0"
    using that by (auto simp: destroy_session_def update_user_session_id_None list_all_iff)
  have falsy_token: "get_user_from_session_id L db None = Inr None"
    "get_user_from_session_id L db (Some []) = Inr None"
    by (simp_all add: get_user_from_session_id_def)
  show ?thesis
    using found [of u] cleared destroyed falsy_token by blast
qed

theorem cleared_session_unreachable_witness:
  "get_user_from_session_id example_lib [alice, bob] (Some ''5e1f'') = Inr (Some bob)
   \<and> session_id bob = Some ''5e1f''
   \<and> session_id alice = None
   \<and> get_user_from_session_id example_lib [alice, bob] None \<noteq> Inr (Some alice)
   \<and> fst (destroy_session example_lib [alice, bob] (Some (py_id bob)))
        = [alice, bob\<lparr>session_id := None\<rparr>]
   \<and> get_user_from_session_id example_lib
        (fst (destroy_session example_lib [alice, bob] (Some (py_id bob)))) (Some ''5e1f'') = Inr None"
  using cleared_session_unreachable [of example_lib "[alice, bob]" "Some ''5e1f''" bob alice]
    cleared_session_unreachable [of example_lib "[alice, bob]" None bob bob]
  by (simp add: get_user_from_session_id_def find_user_by_session_id destroy_session_def
      update_user_def find_user_by_id sql_update_def alice_def bob_def py_id_def int64_def)

end
